theory Spec2Isabelle
  imports Main "HOL-Library.Word" "HOL-Library.Char_ord" "HOL-Library.List_Lexorder"
begin

unbundle bit_operations_syntax

section \<open>Data model\<close>

text \<open>
  Go's \<open>net.IP\<close> is a byte slice. \<open>None\<close> is the nil slice, \<open>Some bs\<close> a non-nil slice
  with the bytes \<open>bs\<close>; the two are told apart only by \<open>!= nil\<close>, as in \<open>IsIPv6\<close>.
\<close>

type_synonym byte = "8 word"
type_synonym IP = "byte list option"

text \<open>Go errors carry a message; \<open>fmt.Errorf\<close> builds a new message around an old one.\<close>

type_synonym error = string

text \<open>\<open>net.IPNet\<close>: an address and a mask (\<open>net.IPMask\<close>, a byte slice used only through
  its length and bytes).\<close>

record IPNet =
  IP :: IP
  Mask :: "byte list"

text \<open>
  The dynamic types a \<open>net.Addr\<close> of \<open>net.InterfaceAddrs\<close> and \<open>Interface.Addrs\<close> can have,
  as the type switch of \<open>AddressSet\<close> tells them apart: \<open>*net.IPAddr\<close> (address and zone),
  \<open>*net.IPNet\<close>, and any other implementation of the interface.
\<close>

datatype Addr = IPAddr IP string | IPNetAddr IPNet | OtherAddr string

text \<open>\<open>net.Interface\<close>, with the answer its method \<open>Addrs()\<close> gives.\<close>

record Interface =
  Name :: string
  Addrs :: "error + Addr list"

text \<open>
  The pure functions of the Go library that the program calls on strings, and that are not
  part of this repository: \<open>net.ParseCIDR\<close> (the network it returns, or the error),
  \<open>ParseIP\<close>, \<open>net.IP.String\<close> and \<open>time.ParseDuration\<close> (nanoseconds, an \<open>int64\<close>).
\<close>

record golib =
  ParseCIDR :: "string \<Rightarrow> error + IP \<times> IPNet"
  ParseIP :: "string \<Rightarrow> IP"
  IP_String :: "IP \<Rightarrow> string"
  ParseDuration :: "string \<Rightarrow> error + 64 word"

text \<open>
  What the host answers during one pass: \<open>net.InterfaceAddrs()\<close>, \<open>net.InterfaceByName\<close>,
  and the order in which the Go runtime iterates over a string set in
  \<open>sets.String.UnsortedList\<close>.
\<close>

record host =
  InterfaceAddrs :: "error + Addr list"
  InterfaceByName :: "string \<Rightarrow> error + Interface"
  UnsortedList :: "string set \<Rightarrow> string list"

text \<open>\<open>UnsortedList\<close> returns every member of a (finite) set once, in some order.\<close>

definition UnsortedList_ok :: "host \<Rightarrow> bool" where
  "UnsortedList_ok h =
     (\<forall>s. finite s \<longrightarrow> set (UnsortedList h s) = s \<and> distinct (UnsortedList h s))"

section \<open>\<open>net.IP\<close> predicates\<close>

definition len :: "IP \<Rightarrow> nat" where
  "len ip = (case ip of None \<Rightarrow> 0 | Some bs \<Rightarrow> length bs)"

definition bytes :: "IP \<Rightarrow> byte list" where
  "bytes ip = (case ip of None \<Rightarrow> [] | Some bs \<Rightarrow> bs)"

definition IPv4len :: nat where "IPv4len = 4"
definition IPv6len :: nat where "IPv6len = 16"

definition v4InV6Prefix :: "byte list" where
  "v4InV6Prefix = [0, 0, 0, 0, 0, 0, 0, 0, 0, 0, 0xff, 0xff]"

definition IPv6loopback :: IP where
  "IPv6loopback = Some [0, 0, 0, 0, 0, 0, 0, 0, 0, 0, 0, 0, 0, 0, 0, 1]"

definition isZeros :: "byte list \<Rightarrow> bool" where
  "isZeros p = list_all (\<lambda>b. b = 0) p"

text \<open>\<open>net.IP.To4\<close>: the 4-byte form of an IPv4 address, nil otherwise.\<close>

definition To4 :: "IP \<Rightarrow> IP" where
  "To4 ip =
     (if len ip = IPv4len then ip
      else if len ip = IPv6len \<and> isZeros (take 10 (bytes ip))
              \<and> bytes ip ! 10 = 0xff \<and> bytes ip ! 11 = 0xff
           then Some (drop 12 (bytes ip))
      else None)"

text \<open>\<open>net.IP.Equal\<close>.\<close>

definition Equal :: "IP \<Rightarrow> IP \<Rightarrow> bool" where
  "Equal ip x =
     (if len ip = len x then bytes ip = bytes x
      else if len ip = IPv4len \<and> len x = IPv6len
           then take 12 (bytes x) = v4InV6Prefix \<and> bytes ip = drop 12 (bytes x)
      else if len ip = IPv6len \<and> len x = IPv4len
           then take 12 (bytes ip) = v4InV6Prefix \<and> drop 12 (bytes ip) = bytes x
      else False)"

text \<open>\<open>net.IP.IsLoopback\<close>.\<close>

definition IsLoopback :: "IP \<Rightarrow> bool" where
  "IsLoopback ip =
     (case To4 ip of
        Some ip4 \<Rightarrow> ip4 ! 0 = 127
      | None \<Rightarrow> Equal ip IPv6loopback)"

text \<open>\<open>net.IP.IsLinkLocalUnicast\<close>, which the filter of this program no longer calls.\<close>

definition IsLinkLocalUnicast :: "IP \<Rightarrow> bool" where
  "IsLinkLocalUnicast ip =
     (case To4 ip of
        Some ip4 \<Rightarrow> ip4 ! 0 = 169 \<and> ip4 ! 1 = 254
      | None \<Rightarrow> len ip = IPv6len \<and> bytes ip ! 0 = 0xfe \<and> (bytes ip ! 1) AND 0xc0 = 0x80)"

text \<open>\<open>net.IPNet.Contains\<close> with its helper \<open>networkNumberAndMask\<close>.\<close>

definition networkNumberAndMask :: "IPNet \<Rightarrow> IP \<times> byte list" where
  "networkNumberAndMask n =
     (let ip = (case To4 (IP n) of Some x \<Rightarrow> Some x | None \<Rightarrow> IP n) in
      if To4 (IP n) = None \<and> len ip \<noteq> IPv6len then (None, [])
      else if length (Mask n) = IPv4len then
             (if len ip \<noteq> IPv4len then (None, []) else (ip, Mask n))
      else if length (Mask n) = IPv6len then
             (if len ip = IPv4len then (ip, drop 12 (Mask n)) else (ip, Mask n))
      else (None, []))"

definition Contains :: "IPNet \<Rightarrow> IP \<Rightarrow> bool" where
  "Contains n ip0 =
     (case networkNumberAndMask n of (nn, m) \<Rightarrow>
        let ip = (case To4 ip0 of Some x \<Rightarrow> Some x | None \<Rightarrow> ip0);
            l = len ip
        in if l \<noteq> len nn then False
           else list_all (\<lambda>i. (bytes nn ! i) AND (m ! i) = (bytes ip ! i) AND (m ! i)) [0..<l])"

section \<open>The address filter and \<open>AddressSet\<close>\<close>

definition IsIPv6 :: "IP \<Rightarrow> bool" where
  "IsIPv6 netIP = (netIP \<noteq> None \<and> To4 netIP = None)"

definition isValidForSet :: "IP \<Rightarrow> bool" where
  "isValidForSet ip =
     (if IsIPv6 ip then False
      else if IsLoopback ip then False
      else True)"

text \<open>
  \<open>sets.String\<close> is a set of strings: \<open>Insert\<close> adds a key, \<open>Has\<close> tests one, and
  \<open>Difference\<close> collects the keys of the receiver that the argument does not have.
\<close>

definition Insert :: "string set \<Rightarrow> string \<Rightarrow> string set" where
  "Insert s k = insert k s"

definition Has :: "string set \<Rightarrow> string \<Rightarrow> bool" where
  "Has s k = (k \<in> s)"

definition Difference :: "string set \<Rightarrow> string set \<Rightarrow> string set" where
  "Difference s1 s2 = Set.filter (\<lambda>key. \<not> Has s2 key) s1"

text \<open>
  The loop of \<open>AddressSet\<close> over \<open>addrs\<close>, with the set \<open>ips\<close> built so far. An address that is
  neither an \<open>*net.IPAddr\<close> nor an \<open>*net.IPNet\<close> is skipped.
\<close>

fun AddressSet_loop :: "golib \<Rightarrow> (IP \<Rightarrow> bool) \<Rightarrow> Addr list \<Rightarrow> string set \<Rightarrow> string set" where
  "AddressSet_loop L isValid [] ips = ips"
| "AddressSet_loop L isValid (a # addrs) ips =
     (case a of
        IPAddr ip z \<Rightarrow>
          AddressSet_loop L isValid addrs (if isValid ip then Insert ips (IP_String L ip) else ips)
      | IPNetAddr v \<Rightarrow>
          AddressSet_loop L isValid addrs
            (if isValid (IP v) then Insert ips (IP_String L (IP v)) else ips)
      | OtherAddr _ \<Rightarrow> AddressSet_loop L isValid addrs ips)"

definition AddressSet :: "golib \<Rightarrow> (IP \<Rightarrow> bool) \<Rightarrow> Addr list \<Rightarrow> string set" where
  "AddressSet L isValid addrs = AddressSet_loop L isValid addrs {}"

section \<open>Effects\<close>

text \<open>
  The messages the program hands to \<open>klog\<close>, one constructor per call site, with the values
  the call formats:
  \<^item> \<open>MissingArgs\<close>: "Pass time in milli secs to sleep and CIDR";
  \<^item> \<open>FailedToParseTime err\<close>: "Failed to parse time:";
  \<^item> \<open>FetchFailed err\<close>: "fetching Node Ips failed:";
  \<^item> \<open>NodeIPs ips\<close>: "Node IPs:";
  \<^item> \<open>CouldNotParseCidr err\<close>: "Could not parse cidr, error";
  \<^item> \<open>ContainsClusterIP a\<close>: "Node IP contains cluster ip:";
  \<^item> \<open>Context nodeAddress bindedAddress ips\<close>: "NodeAddresses: ..., BindAddresses: ..., Diff: ...".
\<close>

datatype log_msg =
    MissingArgs
  | FailedToParseTime error
  | FetchFailed error
  | NodeIPs "IP list"
  | CouldNotParseCidr error
  | ContainsClusterIP IP
  | Context "string set" "string set" "IP list"

text \<open>
  What a run does besides computing: a log call, a call of \<open>net.ParseCIDR\<close> on a string,
  a call of \<open>time.Sleep\<close>. A run is described by the list of these, in order.
\<close>

datatype event = Log log_msg | ParseCIDR_call string | Sleep "64 word"

text \<open>
  \<open>time.Sleep d\<close> pauses for \<open>d\<close> nanoseconds; the Go documentation has a negative or zero
  duration return immediately.
\<close>

definition Sleep_pause :: "64 word \<Rightarrow> nat" where
  "Sleep_pause d = (if sint d \<le> 0 then 0 else unat d)"

section \<open>\<open>fetchNodeIPs\<close>\<close>

definition getAllLocalAddresses :: "golib \<Rightarrow> host \<Rightarrow> error + string set" where
  "getAllLocalAddresses L h =
     (case InterfaceAddrs h of
        Inl err \<Rightarrow> Inl (''Could not get addresses: '' @ err)
      | Inr addr \<Rightarrow> Inr (AddressSet L isValidForSet addr))"

definition GetLocalAddresses :: "golib \<Rightarrow> host \<Rightarrow> string \<Rightarrow> error + string set" where
  "GetLocalAddresses L h dev =
     (case InterfaceByName h dev of
        Inl err \<Rightarrow> Inl (''Could not get interface '' @ dev @ '': '' @ err)
      | Inr ifi \<Rightarrow>
          (case Addrs ifi of
             Inl err \<Rightarrow> Inl (''Can't get addresses from '' @ Name ifi @ '': '' @ err)
           | Inr addr \<Rightarrow> Inr (AddressSet L isValidForSet addr)))"

definition bindedIPs :: "golib \<Rightarrow> host \<Rightarrow> error + string set" where
  "bindedIPs L h = GetLocalAddresses L h ''kube-ipvs0''"

text \<open>
  The \<open>for\<close> loop of \<open>fetchNodeIPs\<close> over the strings \<open>ipset.UnsortedList()\<close> returned, with the
  variables it updates: the slice \<open>ips\<close>, the flag \<open>invalidIP\<close>, and the events so far.
  \<open>ipnet != nil\<close> holds exactly when \<open>net.ParseCIDR\<close> returned a network.
\<close>

fun fetchNodeIPs_loop ::
  "golib \<Rightarrow> string \<Rightarrow> string list \<Rightarrow> IP list \<Rightarrow> bool \<Rightarrow> event list
     \<Rightarrow> IP list \<times> bool \<times> event list" where
  "fetchNodeIPs_loop L CIDR [] ips invalidIP tr = (ips, invalidIP, tr)"
| "fetchNodeIPs_loop L CIDR (ipStr # rest) ips invalidIP tr =
     (let a = ParseIP L ipStr;
          ips' = ips @ [a];
          r = ParseCIDR L CIDR;
          tr' = tr @ [ParseCIDR_call CIDR]
                  @ (case r of Inl err \<Rightarrow> [Log (CouldNotParseCidr err)] | Inr _ \<Rightarrow> [])
      in if (case r of Inl _ \<Rightarrow> False | Inr (_, ipnet) \<Rightarrow> Contains ipnet a) \<and> \<not> invalidIP
         then fetchNodeIPs_loop L CIDR rest ips' True (tr' @ [Log (ContainsClusterIP a)])
         else fetchNodeIPs_loop L CIDR rest ips' invalidIP tr')"

text \<open>The local variables of \<open>fetchNodeIPs\<close> when it returns without an error, and the
  events of the call.\<close>

record locals =
  nodeAddress :: "string set"
  bindedAddress :: "string set"
  ipset :: "string set"
  ips :: "IP list"
  invalidIP :: bool
  trace :: "event list"

definition fetchNodeIPs_run :: "golib \<Rightarrow> host \<Rightarrow> string \<Rightarrow> error + locals" where
  "fetchNodeIPs_run L h CIDR =
     (case getAllLocalAddresses L h of
        Inl err \<Rightarrow> Inl (''error listing LOCAL type addresses from host, error: '' @ err)
      | Inr nodeAddr \<Rightarrow>
          (case bindedIPs L h of
             Inl err \<Rightarrow> Inl err
           | Inr bindedAddr \<Rightarrow>
               let ipset0 = Difference nodeAddr bindedAddr in
               (case fetchNodeIPs_loop L CIDR (UnsortedList h ipset0) [] False [] of
                  (ips0, invalid, tr) \<Rightarrow>
                    Inr \<lparr> nodeAddress = nodeAddr, bindedAddress = bindedAddr, ipset = ipset0,
                          ips = ips0, invalidIP = invalid,
                          trace = tr @ (if invalid
                                        then [Log (Context nodeAddr bindedAddr ips0)]
                                        else []) \<rparr>)))"

text \<open>\<open>fetchNodeIPs\<close> as its caller sees it: the events, and \<open>(nil, err)\<close> or \<open>(ips, nil)\<close>.\<close>

definition fetchNodeIPs :: "golib \<Rightarrow> host \<Rightarrow> string \<Rightarrow> event list \<times> (error + IP list)" where
  "fetchNodeIPs L h CIDR =
     (case fetchNodeIPs_run L h CIDR of
        Inl err \<Rightarrow> ([], Inl err)
      | Inr fr \<Rightarrow> (trace fr, Inr (ips fr)))"

section \<open>\<open>main\<close>\<close>

text \<open>One iteration of the \<open>for\<close> loop of \<open>main\<close>, on the host as it is during that pass.\<close>

definition pass :: "golib \<Rightarrow> 64 word \<Rightarrow> string \<Rightarrow> host \<Rightarrow> event list" where
  "pass L duration CIDR h =
     (case fetchNodeIPs L h CIDR of
        (tr, Inl err) \<Rightarrow> tr @ [Log (FetchFailed err)] @ [Sleep duration]
      | (tr, Inr ips0) \<Rightarrow> tr @ [Log (NodeIPs ips0)] @ [Sleep duration])"

text \<open>
  The loop has no exit. Its first \<open>n\<close> iterations are described by the list of the \<open>n\<close>
  states the host is in during them.
\<close>

fun loop :: "golib \<Rightarrow> 64 word \<Rightarrow> string \<Rightarrow> host list \<Rightarrow> event list" where
  "loop L duration CIDR [] = []"
| "loop L duration CIDR (h # hs) = pass L duration CIDR h @ loop L duration CIDR hs"

text \<open>\<open>Exited\<close>: \<open>main\<close> has returned. \<open>Looping\<close>: it is in the loop, after as many passes as
  there are host states.\<close>

datatype status = Exited | Looping

definition main :: "golib \<Rightarrow> host list \<Rightarrow> string list \<Rightarrow> event list \<times> status" where
  "main L hs Args =
     (if length Args < 3 then ([Log MissingArgs], Exited)
      else let sleepTime = Args ! 1 @ ''ms'';
               CIDR = Args ! 2
           in case ParseDuration L sleepTime of
                Inl err \<Rightarrow> ([Log (FailedToParseTime err)], Exited)
              | Inr duration \<Rightarrow> (loop L duration CIDR hs, Looping))"

section \<open>Concrete libraries and hosts\<close>

text \<open>\<open>net.IPv4\<close>: the 16-byte form of an IPv4 address, as \<open>net.InterfaceAddrs\<close>,
  \<open>net.ParseCIDR\<close> and \<open>ParseIP\<close> return it.\<close>

definition IPv4 :: "byte \<Rightarrow> byte \<Rightarrow> byte \<Rightarrow> byte \<Rightarrow> IP" where
  "IPv4 a b c d = Some (v4InV6Prefix @ [a, b, c, d])"

text \<open>The network \<open>net.ParseCIDR\<close> returns for \<open>10.96.0.0/12\<close>.\<close>

definition service_net :: IPNet where
  "service_net = \<lparr>IP = Some [10, 96, 0, 0], Mask = [255, 240, 0, 0]\<rparr>"

text \<open>
  A library that answers as Go does on the strings and addresses of the scenarios below:
  the service range \<open>10.96.0.0/12\<close>, the addresses \<open>10.96.0.5\<close>, \<open>10.96.0.7\<close> and
  \<open>192.168.1.4\<close>, and the durations \<open>1000ms\<close>, \<open>2.5ms\<close> and \<open>-100ms\<close>. Every other CIDR or
  duration string a scenario uses (\<open>bogus\<close>, \<open>abcms\<close>) is one that Go rejects.
\<close>

definition lib0 :: golib where
  "lib0 =
     \<lparr> ParseCIDR = (\<lambda>s. if s = ''10.96.0.0/12''
                         then Inr (IPv4 10 96 0 0, service_net)
                         else Inl (''invalid CIDR address: '' @ s)),
       ParseIP = (\<lambda>s. if s = ''10.96.0.5'' then IPv4 10 96 0 5
                       else if s = ''10.96.0.7'' then IPv4 10 96 0 7
                       else if s = ''192.168.1.4'' then IPv4 192 168 1 4
                       else None),
       IP_String = (\<lambda>ip. if ip = IPv4 10 96 0 5 then ''10.96.0.5''
                          else if ip = IPv4 10 96 0 7 then ''10.96.0.7''
                          else if ip = IPv4 192 168 1 4 then ''192.168.1.4''
                          else if ip = None then ''<nil>''
                          else ''?''),
       ParseDuration = (\<lambda>s. if s = ''1000ms'' then Inr 1000000000
                             else if s = ''2.5ms'' then Inr 2500000
                             else if s = ''-100ms'' then Inr (- 100000000)
                             else Inl (''time: invalid duration '' @ [CHR 0x22] @ s @ [CHR 0x22])) \<rparr>"

text \<open>A host on which the device \<open>kube-ipvs0\<close> exists and has the addresses \<open>addrs\<close>.\<close>

definition with_kube_ipvs0 :: "Addr list \<Rightarrow> string \<Rightarrow> error + Interface" where
  "with_kube_ipvs0 addrs dev =
     (if dev = ''kube-ipvs0'' then Inr \<lparr>Name = ''kube-ipvs0'', Addrs = Inr addrs\<rparr>
      else Inl ''route ip+net: no such network interface'')"

definition on_link :: "IP \<Rightarrow> Addr" where
  "on_link ip = IPNetAddr \<lparr>IP = ip, Mask = [255, 255, 255, 0]\<rparr>"

text \<open>Scenario B of the specification: \<open>10.96.0.5\<close> and the loopback address on the host,
  nothing on \<open>kube-ipvs0\<close>.\<close>

definition hostB :: host where
  "hostB =
     \<lparr> InterfaceAddrs = Inr [on_link (IPv4 10 96 0 5),
                             IPNetAddr \<lparr>IP = IPv4 127 0 0 1, Mask = [255, 0, 0, 0]\<rparr>],
       InterfaceByName = with_kube_ipvs0 [],
       UnsortedList = sorted_list_of_set \<rparr>"

text \<open>Two addresses inside \<open>10.96.0.0/12\<close> and one outside; the runtime iterates in
  descending order.\<close>

definition host_two :: host where
  "host_two =
     \<lparr> InterfaceAddrs = Inr [on_link (IPv4 10 96 0 5), on_link (IPv4 192 168 1 4),
                             on_link (IPv4 10 96 0 7)],
       InterfaceByName = with_kube_ipvs0 [],
       UnsortedList = (\<lambda>s. rev (sorted_list_of_set s)) \<rparr>"

text \<open>The same host with \<open>10.96.0.7\<close> bound to \<open>kube-ipvs0\<close>.\<close>

definition host_bound :: host where
  "host_bound =
     \<lparr> InterfaceAddrs = Inr [on_link (IPv4 10 96 0 5), on_link (IPv4 192 168 1 4),
                             on_link (IPv4 10 96 0 7)],
       InterfaceByName = with_kube_ipvs0 [on_link (IPv4 10 96 0 7)],
       UnsortedList = sorted_list_of_set \<rparr>"

text \<open>A host without any address.\<close>

definition host_none :: host where
  "host_none =
     \<lparr> InterfaceAddrs = Inr [],
       InterfaceByName = with_kube_ipvs0 [],
       UnsortedList = sorted_list_of_set \<rparr>"

text \<open>Scenario D: the device \<open>kube-ipvs0\<close> is absent.\<close>

definition host_noif :: host where
  "host_noif =
     \<lparr> InterfaceAddrs = Inr [on_link (IPv4 10 96 0 5)],
       InterfaceByName = (\<lambda>dev. Inl ''route ip+net: no such network interface''),
       UnsortedList = sorted_list_of_set \<rparr>"

text \<open>The local variables \<open>fetchNodeIPs\<close> ends with on these hosts, for the service range
  \<open>10.96.0.0/12\<close> and for the malformed range \<open>bogus\<close>.\<close>

definition locals_B :: locals where
  "locals_B =
     \<lparr> nodeAddress = {''10.96.0.5''}, bindedAddress = {}, ipset = {''10.96.0.5''},
       ips = [IPv4 10 96 0 5], invalidIP = True,
       trace = [ParseCIDR_call ''10.96.0.0/12'', Log (ContainsClusterIP (IPv4 10 96 0 5)),
                Log (Context {''10.96.0.5''} {} [IPv4 10 96 0 5])] \<rparr>"

definition locals_B_bogus :: locals where
  "locals_B_bogus =
     \<lparr> nodeAddress = {''10.96.0.5''}, bindedAddress = {}, ipset = {''10.96.0.5''},
       ips = [IPv4 10 96 0 5], invalidIP = False,
       trace = [ParseCIDR_call ''bogus'',
                Log (CouldNotParseCidr ''invalid CIDR address: bogus'')] \<rparr>"

definition locals_two :: locals where
  "locals_two =
     \<lparr> nodeAddress = {''10.96.0.7'', ''192.168.1.4'', ''10.96.0.5''}, bindedAddress = {},
       ipset = {''10.96.0.7'', ''192.168.1.4'', ''10.96.0.5''},
       ips = [IPv4 192 168 1 4, IPv4 10 96 0 7, IPv4 10 96 0 5], invalidIP = True,
       trace = [ParseCIDR_call ''10.96.0.0/12'',
                ParseCIDR_call ''10.96.0.0/12'', Log (ContainsClusterIP (IPv4 10 96 0 7)),
                ParseCIDR_call ''10.96.0.0/12'',
                Log (Context {''10.96.0.7'', ''192.168.1.4'', ''10.96.0.5''} {}
                       [IPv4 192 168 1 4, IPv4 10 96 0 7, IPv4 10 96 0 5])] \<rparr>"

definition locals_bound :: locals where
  "locals_bound =
     \<lparr> nodeAddress = {''10.96.0.7'', ''192.168.1.4'', ''10.96.0.5''},
       bindedAddress = {''10.96.0.7''},
       ipset = {''192.168.1.4'', ''10.96.0.5''},
       ips = [IPv4 10 96 0 5, IPv4 192 168 1 4], invalidIP = True,
       trace = [ParseCIDR_call ''10.96.0.0/12'', Log (ContainsClusterIP (IPv4 10 96 0 5)),
                ParseCIDR_call ''10.96.0.0/12'',
                Log (Context {''10.96.0.7'', ''192.168.1.4'', ''10.96.0.5''} {''10.96.0.7''}
                       [IPv4 10 96 0 5, IPv4 192 168 1 4])] \<rparr>"

text \<open>The address \<open>1000::\<close>.\<close>

definition ip_1000 :: IP where
  "ip_1000 = Some [0x10, 0, 0, 0, 0, 0, 0, 0, 0, 0, 0, 0, 0, 0, 0, 0]"

section \<open>Notions used in the statements\<close>

text \<open>The addresses \<open>AddressSet\<close> reads from a list of \<open>net.Addr\<close>: those of its
  \<open>*net.IPAddr\<close> and \<open>*net.IPNet\<close> entries.\<close>

fun Addr_IPs :: "Addr list \<Rightarrow> IP list" where
  "Addr_IPs [] = []"
| "Addr_IPs (IPAddr ip z # addrs) = ip # Addr_IPs addrs"
| "Addr_IPs (IPNetAddr v # addrs) = IP v # Addr_IPs addrs"
| "Addr_IPs (OtherAddr u # addrs) = Addr_IPs addrs"

text \<open>Kinds of events: a call of \<open>net.ParseCIDR\<close>, the per-address conflict message, the
  context message.\<close>

fun is_ParseCIDR_call :: "event \<Rightarrow> bool" where
  "is_ParseCIDR_call (ParseCIDR_call s) = True"
| "is_ParseCIDR_call _ = False"

fun is_conflict_msg :: "event \<Rightarrow> bool" where
  "is_conflict_msg (Log (ContainsClusterIP a)) = True"
| "is_conflict_msg _ = False"

fun is_context_msg :: "event \<Rightarrow> bool" where
  "is_context_msg (Log (Context a b c)) = True"
| "is_context_msg _ = False"

text \<open>The calls of \<open>time.Sleep\<close> among the events, and the time a run spends in them: the
  pauses of its \<open>time.Sleep\<close> calls, added up.\<close>

fun is_Sleep :: "event \<Rightarrow> bool" where
  "is_Sleep (Sleep d) = True"
| "is_Sleep _ = False"

fun paused :: "event list \<Rightarrow> nat" where
  "paused [] = 0"
| "paused (Sleep d # es) = Sleep_pause d + paused es"
| "paused (e # es) = paused es"

text \<open>
  The filter as the specification words it, for a collector that tracks one family
  (\<open>isIPv6\<close> true for v6): an address is excluded if it is a loopback address, or belongs to
  the family not tracked, or, when v6 is tracked, is a link-local unicast address.
\<close>

definition spec_isValidForSet :: "bool \<Rightarrow> IP \<Rightarrow> bool" where
  "spec_isValidForSet isIPv6 ip =
     (\<not> (IsLoopback ip \<or> isIPv6 \<noteq> IsIPv6 ip \<or> (isIPv6 \<and> IsLinkLocalUnicast ip)))"

section \<open>Lemmas on the iterations\<close>

lemma AddressSet_loop_mem:
  "s \<in> AddressSet_loop L v addrs acc \<longleftrightarrow>
     s \<in> acc \<or> (\<exists>ip \<in> set (Addr_IPs addrs). v ip \<and> s = IP_String L ip)"
  by (induction addrs arbitrary: acc rule: Addr_IPs.induct) (auto simp: Insert_def)

lemma AddressSet_mem:
  "s \<in> AddressSet L v addrs \<longleftrightarrow> (\<exists>ip \<in> set (Addr_IPs addrs). v ip \<and> s = IP_String L ip)"
  by (simp add: AddressSet_def AddressSet_loop_mem)

lemma AddressSet_loop_finite: "finite acc \<Longrightarrow> finite (AddressSet_loop L v addrs acc)"
  by (induction addrs arbitrary: acc rule: Addr_IPs.induct) (auto simp: Insert_def)

lemma AddressSet_finite: "finite (AddressSet L v addrs)"
  by (simp add: AddressSet_def AddressSet_loop_finite)

lemma Difference_eq: "Difference s1 s2 = s1 - s2"
  by (auto simp: Difference_def Has_def)

lemma loop_ips:
  "fst (fetchNodeIPs_loop L c xs ips0 flag tr) = ips0 @ map (ParseIP L) xs"
  by (induction xs arbitrary: ips0 flag tr) (auto simp: Let_def)

lemma loop_flag_ok:
  "ParseCIDR L c = Inr (ip0, n) \<Longrightarrow>
   fst (snd (fetchNodeIPs_loop L c xs ips0 flag tr)) = (flag \<or> (\<exists>s \<in> set xs. Contains n (ParseIP L s)))"
  by (induction xs arbitrary: ips0 flag tr) (auto simp: Let_def)

lemma loop_flag_bad:
  "ParseCIDR L c = Inl e \<Longrightarrow> fst (snd (fetchNodeIPs_loop L c xs ips0 flag tr)) = flag"
  by (induction xs arbitrary: ips0 flag tr) (auto simp: Let_def)

lemma loop_trace_bad:
  "ParseCIDR L c = Inl e \<Longrightarrow>
   snd (snd (fetchNodeIPs_loop L c xs ips0 flag tr)) =
     tr @ concat (map (\<lambda>_. [ParseCIDR_call c, Log (CouldNotParseCidr e)]) xs)"
  by (induction xs arbitrary: ips0 flag tr) (auto simp: Let_def)

lemma loop_calls:
  "filter is_ParseCIDR_call (snd (snd (fetchNodeIPs_loop L c xs ips0 flag tr))) =
     filter is_ParseCIDR_call tr @ replicate (length xs) (ParseCIDR_call c)"
  by (induction xs arbitrary: ips0 flag tr) (auto simp: Let_def split: sum.splits)

lemma loop_conflict_msgs:
  "ParseCIDR L c = Inr (ip0, n) \<Longrightarrow>
   filter is_conflict_msg (snd (snd (fetchNodeIPs_loop L c xs ips0 flag tr))) =
     filter is_conflict_msg tr @
       (if flag then []
        else case find (\<lambda>s. Contains n (ParseIP L s)) xs of
               None \<Rightarrow> []
             | Some s \<Rightarrow> [Log (ContainsClusterIP (ParseIP L s))])"
  by (induction xs arbitrary: ips0 flag tr) (auto simp: Let_def)

lemma loop_no_context:
  "filter is_context_msg (snd (snd (fetchNodeIPs_loop L c xs ips0 flag tr))) = filter is_context_msg tr"
  by (induction xs arbitrary: ips0 flag tr) (auto simp: Let_def split: sum.splits)


lemma loop_append: "loop L d c (hs1 @ hs2) = loop L d c hs1 @ loop L d c hs2"
  by (induction hs1) auto

lemma run_Inr_D:
  assumes "fetchNodeIPs_run L h c = Inr fr"
  shows "\<exists>addr ifi baddr.
           InterfaceAddrs h = Inr addr \<and> InterfaceByName h ''kube-ipvs0'' = Inr ifi \<and>
           Addrs ifi = Inr baddr \<and>
           nodeAddress fr = AddressSet L isValidForSet addr \<and>
           bindedAddress fr = AddressSet L isValidForSet baddr \<and>
           ipset fr = Difference (nodeAddress fr) (bindedAddress fr) \<and>
           ips fr = fst (fetchNodeIPs_loop L c (UnsortedList h (ipset fr)) [] False []) \<and>
           invalidIP fr = fst (snd (fetchNodeIPs_loop L c (UnsortedList h (ipset fr)) [] False [])) \<and>
           trace fr = snd (snd (fetchNodeIPs_loop L c (UnsortedList h (ipset fr)) [] False []))
                        @ (if invalidIP fr
                           then [Log (Context (nodeAddress fr) (bindedAddress fr) (ips fr))]
                           else [])"
  using assms
  by (auto simp: fetchNodeIPs_run_def getAllLocalAddresses_def bindedIPs_def
        GetLocalAddresses_def Let_def split: sum.splits prod.splits)

lemma run_Inl_iff:
  "(\<exists>err. fetchNodeIPs_run L h c = Inl err) \<longleftrightarrow>
     (\<exists>e. InterfaceAddrs h = Inl e) \<or> (\<exists>e. InterfaceByName h ''kube-ipvs0'' = Inl e) \<or>
     (\<exists>ifi e. InterfaceByName h ''kube-ipvs0'' = Inr ifi \<and> Addrs ifi = Inl e)"
  by (auto simp: fetchNodeIPs_run_def getAllLocalAddresses_def bindedIPs_def
        GetLocalAddresses_def Let_def split: sum.splits prod.splits)

lemma run_ipset_finite: "fetchNodeIPs_run L h c = Inr fr \<Longrightarrow> finite (ipset fr)"
  by (drule run_Inr_D) (auto simp: Difference_eq AddressSet_finite)

lemma run_ips:
  "fetchNodeIPs_run L h c = Inr fr \<Longrightarrow> ips fr = map (ParseIP L) (UnsortedList h (ipset fr))"
  by (drule run_Inr_D) (auto simp: loop_ips)

lemma run_fetch:
  "fetchNodeIPs_run L h c = Inr fr \<Longrightarrow> fetchNodeIPs L h c = (trace fr, Inr (ips fr))"
  by (simp add: fetchNodeIPs_def)

lemma UnsortedList_okD:
  "UnsortedList_ok h \<Longrightarrow> finite s \<Longrightarrow> set (UnsortedList h s) = s \<and> distinct (UnsortedList h s)"
  by (simp add: UnsortedList_ok_def)


section \<open>The scenarios, evaluated\<close>

lemmas ip_defs = To4_def IPv4_def v4InV6Prefix_def len_def bytes_def IPv4len_def IPv6len_def
  isZeros_def IsIPv6_def IsLoopback_def Equal_def IPv6loopback_def isValidForSet_def
  Contains_def networkNumberAndMask_def upt_rec

lemmas run_defs = fetchNodeIPs_run_def getAllLocalAddresses_def bindedIPs_def
  GetLocalAddresses_def AddressSet_def Insert_def Difference_eq with_kube_ipvs0_def on_link_def
  Let_def

lemma ok_sorted:
  "UnsortedList_ok \<lparr>InterfaceAddrs = a, InterfaceByName = b, UnsortedList = sorted_list_of_set\<rparr>"
  by (simp add: UnsortedList_ok_def)

lemma ok_rev_sorted:
  "UnsortedList_ok \<lparr>InterfaceAddrs = a, InterfaceByName = b,
                    UnsortedList = (\<lambda>s. rev (sorted_list_of_set s))\<rparr>"
  by (simp add: UnsortedList_ok_def)

lemma valid_5: "isValidForSet (IPv4 10 96 0 5)" by (simp add: ip_defs)
lemma valid_7: "isValidForSet (IPv4 10 96 0 7)" by (simp add: ip_defs)
lemma valid_192: "isValidForSet (IPv4 192 168 1 4)" by (simp add: ip_defs)
lemma invalid_127: "\<not> isValidForSet (IPv4 127 0 0 1)" by (simp add: ip_defs)

lemma IPv4_inj: "IPv4 a b c d = IPv4 a' b' c' d' \<longleftrightarrow> a = a' \<and> b = b' \<and> c = c' \<and> d = d'"
  by (simp add: IPv4_def)

lemma in_5: "Contains service_net (IPv4 10 96 0 5)" by (simp add: ip_defs service_net_def)
lemma in_7: "Contains service_net (IPv4 10 96 0 7)" by (simp add: ip_defs service_net_def)
lemma out_192: "\<not> Contains service_net (IPv4 192 168 1 4)"
  by (simp add: ip_defs service_net_def)

lemma sorted_three:
  "sorted_list_of_set {''10.96.0.7'', ''192.168.1.4'', ''10.96.0.5''} =
     [''10.96.0.5'', ''10.96.0.7'', ''192.168.1.4'']"
  by code_simp

lemma sorted_two:
  "sorted_list_of_set {''192.168.1.4'', ''10.96.0.5''} = [''10.96.0.5'', ''192.168.1.4'']"
  by code_simp

lemma run_B: "fetchNodeIPs_run lib0 hostB ''10.96.0.0/12'' = Inr locals_B"
  using in_5
  by (simp add: run_defs hostB_def lib0_def locals_B_def valid_5 invalid_127 IPv4_inj)

lemma run_B_bogus: "fetchNodeIPs_run lib0 hostB ''bogus'' = Inr locals_B_bogus"
  by (simp add: run_defs hostB_def lib0_def locals_B_bogus_def valid_5 invalid_127 IPv4_inj)

lemma run_two: "fetchNodeIPs_run lib0 host_two ''10.96.0.0/12'' = Inr locals_two"
  using in_5 in_7 out_192
  by (simp add: run_defs host_two_def lib0_def locals_two_def valid_5 valid_7 valid_192
        IPv4_inj sorted_three)

lemma run_bound: "fetchNodeIPs_run lib0 host_bound ''10.96.0.0/12'' = Inr locals_bound"
  using in_5 in_7 out_192
  by (simp add: run_defs host_bound_def lib0_def locals_bound_def valid_5 valid_7 valid_192
        IPv4_inj sorted_two)

section \<open>The claims\<close>

text \<open>
  C1. With a well-formed CIDR, the flag \<open>invalidIP\<close> of a pass is true if and only if some
  candidate address (a string of \<open>ipset\<close>, parsed) lies inside the network, and every
  candidate is in the returned slice whatever the flag: the slice is the candidates in
  iteration order, each once. In scenario B (the host has \<open>10.96.0.5\<close> and \<open>127.0.0.1\<close>,
  nothing is bound to \<open>kube-ipvs0\<close>, the range is \<open>10.96.0.0/12\<close>) the candidates are
  \<open>{10.96.0.5}\<close> and the flag is true.
\<close>

theorem conflictFlag_iff_some_candidate_inside:
  "(UnsortedList_ok h \<and> ParseCIDR L CIDR = Inr (ip0, ipnet) \<and> fetchNodeIPs_run L h CIDR = Inr fr
      \<longrightarrow> (invalidIP fr \<longleftrightarrow> (\<exists>s \<in> ipset fr. Contains ipnet (ParseIP L s)))
          \<and> ips fr = map (ParseIP L) (UnsortedList h (ipset fr))
          \<and> set (ips fr) = ParseIP L ` ipset fr
          \<and> length (ips fr) = card (ipset fr)
          \<and> fetchNodeIPs L h CIDR = (trace fr, Inr (ips fr)))
   \<and> (UnsortedList_ok h
        \<and> InterfaceAddrs h = Inr [IPNetAddr \<lparr>IP = IPv4 10 96 0 5, Mask = m1\<rparr>,
                                  IPNetAddr \<lparr>IP = IPv4 127 0 0 1, Mask = m2\<rparr>]
        \<and> InterfaceByName h ''kube-ipvs0'' = Inr ifi \<and> Addrs ifi = Inr []
        \<and> IP_String L (IPv4 10 96 0 5) = ''10.96.0.5''
        \<and> ParseIP L ''10.96.0.5'' = IPv4 10 96 0 5
        \<and> ParseCIDR L ''10.96.0.0/12'' = Inr (IPv4 10 96 0 0, service_net)
      \<longrightarrow> (\<exists>fr'. fetchNodeIPs_run L h ''10.96.0.0/12'' = Inr fr'
                 \<and> ipset fr' = {''10.96.0.5''} \<and> ips fr' = [IPv4 10 96 0 5] \<and> invalidIP fr'))"
proof (intro conjI impI)
  assume a: "UnsortedList_ok h \<and> ParseCIDR L CIDR = Inr (ip0, ipnet)
               \<and> fetchNodeIPs_run L h CIDR = Inr fr"
  then have run: "fetchNodeIPs_run L h CIDR = Inr fr"
    and cidr: "ParseCIDR L CIDR = Inr (ip0, ipnet)"
    by simp_all
  from a run have ul: "set (UnsortedList h (ipset fr)) = ipset fr"
    "distinct (UnsortedList h (ipset fr))"
    by (simp_all add: UnsortedList_okD run_ipset_finite)
  from run_Inr_D [OF run]
  have "invalidIP fr = fst (snd (fetchNodeIPs_loop L CIDR (UnsortedList h (ipset fr)) [] False []))"
    by blast
  then show "invalidIP fr \<longleftrightarrow> (\<exists>s \<in> ipset fr. Contains ipnet (ParseIP L s))"
    by (simp add: loop_flag_ok [OF cidr] ul)
  show ips: "ips fr = map (ParseIP L) (UnsortedList h (ipset fr))"
    by (rule run_ips [OF run])
  show "set (ips fr) = ParseIP L ` ipset fr"
    by (simp add: ips ul)
  show "length (ips fr) = card (ipset fr)"
    using distinct_card [OF ul(2)] by (simp add: ips ul)
  show "fetchNodeIPs L h CIDR = (trace fr, Inr (ips fr))"
    by (rule run_fetch [OF run])
next
  assume b: "UnsortedList_ok h
        \<and> InterfaceAddrs h = Inr [IPNetAddr \<lparr>IP = IPv4 10 96 0 5, Mask = m1\<rparr>,
                                  IPNetAddr \<lparr>IP = IPv4 127 0 0 1, Mask = m2\<rparr>]
        \<and> InterfaceByName h ''kube-ipvs0'' = Inr ifi \<and> Addrs ifi = Inr []
        \<and> IP_String L (IPv4 10 96 0 5) = ''10.96.0.5''
        \<and> ParseIP L ''10.96.0.5'' = IPv4 10 96 0 5
        \<and> ParseCIDR L ''10.96.0.0/12'' = Inr (IPv4 10 96 0 0, service_net)"
  then have "set (UnsortedList h {''10.96.0.5''}) = {''10.96.0.5''}"
    and "distinct (UnsortedList h {''10.96.0.5''})"
    by (simp_all add: UnsortedList_okD)
  then have ul: "UnsortedList h {''10.96.0.5''} = [''10.96.0.5'']"
    by (cases "UnsortedList h {''10.96.0.5''}") (auto simp: subset_singleton_iff)
  show "\<exists>fr'. fetchNodeIPs_run L h ''10.96.0.0/12'' = Inr fr'
                 \<and> ipset fr' = {''10.96.0.5''} \<and> ips fr' = [IPv4 10 96 0 5] \<and> invalidIP fr'"
    using b in_5
    by (simp add: fetchNodeIPs_run_def getAllLocalAddresses_def bindedIPs_def
          GetLocalAddresses_def AddressSet_def Insert_def Difference_eq Let_def
          valid_5 invalid_127 ul)
qed

theorem conflictFlag_iff_some_candidate_inside_witness:
  "UnsortedList_ok hostB
   \<and> ParseCIDR lib0 ''10.96.0.0/12'' = Inr (IPv4 10 96 0 0, service_net)
   \<and> fetchNodeIPs_run lib0 hostB ''10.96.0.0/12'' = Inr locals_B
   \<and> InterfaceAddrs hostB = Inr [IPNetAddr \<lparr>IP = IPv4 10 96 0 5, Mask = [255, 255, 255, 0]\<rparr>,
                                  IPNetAddr \<lparr>IP = IPv4 127 0 0 1, Mask = [255, 0, 0, 0]\<rparr>]
   \<and> InterfaceByName hostB ''kube-ipvs0'' = Inr \<lparr>Name = ''kube-ipvs0'', Addrs = Inr []\<rparr>
   \<and> IP_String lib0 (IPv4 10 96 0 5) = ''10.96.0.5''
   \<and> ParseIP lib0 ''10.96.0.5'' = IPv4 10 96 0 5
   \<and> ((invalidIP locals_B \<longleftrightarrow> (\<exists>s \<in> ipset locals_B. Contains service_net (ParseIP lib0 s)))
      \<and> ips locals_B = map (ParseIP lib0) (UnsortedList hostB (ipset locals_B))
      \<and> set (ips locals_B) = ParseIP lib0 ` ipset locals_B
      \<and> length (ips locals_B) = card (ipset locals_B)
      \<and> fetchNodeIPs lib0 hostB ''10.96.0.0/12'' = (trace locals_B, Inr (ips locals_B)))
   \<and> invalidIP locals_B \<and> ips locals_B = [IPv4 10 96 0 5]"
proof -
  have ok: "UnsortedList_ok hostB"
    by (simp add: hostB_def ok_sorted)
  have cidr: "ParseCIDR lib0 ''10.96.0.0/12'' = Inr (IPv4 10 96 0 0, service_net)"
    by (simp add: lib0_def)
  have host: "InterfaceAddrs hostB =
                Inr [IPNetAddr \<lparr>IP = IPv4 10 96 0 5, Mask = [255, 255, 255, 0]\<rparr>,
                     IPNetAddr \<lparr>IP = IPv4 127 0 0 1, Mask = [255, 0, 0, 0]\<rparr>]"
    "InterfaceByName hostB ''kube-ipvs0'' = Inr \<lparr>Name = ''kube-ipvs0'', Addrs = Inr []\<rparr>"
    by (simp_all add: hostB_def on_link_def with_kube_ipvs0_def)
  have lib: "IP_String lib0 (IPv4 10 96 0 5) = ''10.96.0.5''"
    "ParseIP lib0 ''10.96.0.5'' = IPv4 10 96 0 5"
    by (simp_all add: lib0_def)
  have flag: "invalidIP locals_B" and l: "ips locals_B = [IPv4 10 96 0 5]"
    by (simp_all add: locals_B_def)
  note T = conflictFlag_iff_some_candidate_inside
         [of hostB lib0 "''10.96.0.0/12''" "IPv4 10 96 0 0" service_net locals_B
             "[255, 255, 255, 0]" "[255, 0, 0, 0]" "\<lparr>Name = ''kube-ipvs0'', Addrs = Inr []\<rparr>"]
  from T ok cidr run_B host lib flag l
  show ?thesis by blast
qed

lemma length4E:
  assumes "length (bs :: 'a list) = 4"
  obtains a b c d where "bs = [a, b, c, d]"
  using assms by (auto simp: length_Suc_conv eval_nat_numeral)

lemma length16E:
  assumes "length (bs :: 'a list) = 16"
  obtains x0 x1 x2 x3 x4 x5 x6 x7 x8 x9 x10 x11 a b c d
  where "bs = [x0, x1, x2, x3, x4, x5, x6, x7, x8, x9, x10, x11, a, b, c, d]"
  using assms by (auto simp: length_Suc_conv eval_nat_numeral)

lemma isValidForSet_shape:
  "isValidForSet ip \<longleftrightarrow>
     ip = None \<or> (\<exists>a b c d. a \<noteq> 127 \<and> (ip = Some [a, b, c, d] \<or> ip = IPv4 a b c d))"
proof (cases ip)
  case None
  then show ?thesis by (simp add: ip_defs)
next
  case (Some bs)
  consider "length bs = 4" | "length bs = 16" | "length bs \<noteq> 4" "length bs \<noteq> 16"
    by blast
  then show ?thesis
  proof cases
    case 1
    then obtain a b c d where "bs = [a, b, c, d]" by (rule length4E)
    with Some show ?thesis by (simp add: ip_defs)
  next
    case 2
    then obtain x0 x1 x2 x3 x4 x5 x6 x7 x8 x9 x10 x11 a b c d
      where "bs = [x0, x1, x2, x3, x4, x5, x6, x7, x8, x9, x10, x11, a, b, c, d]"
      by (rule length16E)
    with Some show ?thesis by (auto simp: ip_defs)
  next
    case 3
    with Some show ?thesis by (auto simp: ip_defs)
  qed
qed

text \<open>
  C2. The candidate set of a pass is the difference of the all-local set and the set bound to
  \<open>kube-ipvs0\<close>, both built by \<open>AddressSet\<close> from what the host answers: it has no member
  of the bound set, and each of its members is in the all-local set.
\<close>

theorem ipset_is_difference:
  "fetchNodeIPs_run L h CIDR = Inr fr \<longrightarrow>
     ipset fr = Difference (nodeAddress fr) (bindedAddress fr)
     \<and> ipset fr \<inter> bindedAddress fr = {}
     \<and> ipset fr \<subseteq> nodeAddress fr
     \<and> (\<exists>addr ifi baddr.
           InterfaceAddrs h = Inr addr \<and> nodeAddress fr = AddressSet L isValidForSet addr
           \<and> InterfaceByName h ''kube-ipvs0'' = Inr ifi \<and> Addrs ifi = Inr baddr
           \<and> bindedAddress fr = AddressSet L isValidForSet baddr)"
proof
  assume run: "fetchNodeIPs_run L h CIDR = Inr fr"
  from run_Inr_D [OF run] obtain addr ifi baddr where
    h: "InterfaceAddrs h = Inr addr" "InterfaceByName h ''kube-ipvs0'' = Inr ifi"
       "Addrs ifi = Inr baddr"
    and n: "nodeAddress fr = AddressSet L isValidForSet addr"
    and b: "bindedAddress fr = AddressSet L isValidForSet baddr"
    and d: "ipset fr = Difference (nodeAddress fr) (bindedAddress fr)"
    by blast
  from d have "ipset fr \<inter> bindedAddress fr = {}" and "ipset fr \<subseteq> nodeAddress fr"
    by (auto simp: Difference_eq)
  with h n b d show "ipset fr = Difference (nodeAddress fr) (bindedAddress fr)
     \<and> ipset fr \<inter> bindedAddress fr = {}
     \<and> ipset fr \<subseteq> nodeAddress fr
     \<and> (\<exists>addr ifi baddr.
           InterfaceAddrs h = Inr addr \<and> nodeAddress fr = AddressSet L isValidForSet addr
           \<and> InterfaceByName h ''kube-ipvs0'' = Inr ifi \<and> Addrs ifi = Inr baddr
           \<and> bindedAddress fr = AddressSet L isValidForSet baddr)"
    by blast
qed

theorem ipset_is_difference_witness:
  "fetchNodeIPs_run lib0 host_bound ''10.96.0.0/12'' = Inr locals_bound
   \<and> ipset locals_bound \<inter> bindedAddress locals_bound = {}
   \<and> ipset locals_bound \<subseteq> nodeAddress locals_bound
   \<and> bindedAddress locals_bound = {''10.96.0.7''}
   \<and> ipset locals_bound = {''192.168.1.4'', ''10.96.0.5''}"
proof -
  have v: "bindedAddress locals_bound = {''10.96.0.7''}"
    "ipset locals_bound = {''192.168.1.4'', ''10.96.0.5''}"
    by (simp_all add: locals_bound_def)
  from ipset_is_difference [of lib0 host_bound "''10.96.0.0/12''" locals_bound] run_bound v
  show ?thesis by blast
qed

text \<open>
  C3, as the specification states it, fails: with v6 as the tracked family the filter of the
  specification accepts \<open>1000::\<close>, and the filter of the program rejects it.
\<close>

theorem filter_rejects_v6_when_v6_tracked:
  "spec_isValidForSet True ip_1000 \<and> \<not> isValidForSet ip_1000"
  by (simp add: spec_isValidForSet_def IsLinkLocalUnicast_def ip_1000_def ip_defs)

text \<open>
  C3, amended. The filter has no family setting and tracks v4: it excludes an address exactly
  when it is a loopback address or an IPv6 address (non-nil, without a 4-byte form), which is
  the filter of the specification for the family v4; link-local addresses get no treatment of
  their own. So every candidate of a pass is the string of an address the host listed that is
  neither a loopback nor an IPv6 address.
\<close>

theorem filter_excludes_loopback_and_v6:
  "(isValidForSet ip \<longleftrightarrow> \<not> (IsLoopback ip \<or> IsIPv6 ip))
   \<and> isValidForSet ip = spec_isValidForSet False ip
   \<and> (isValidForSet ip \<longleftrightarrow>
        ip = None \<or> (\<exists>a b c d. a \<noteq> 127 \<and> (ip = Some [a, b, c, d] \<or> ip = IPv4 a b c d)))
   \<and> (fetchNodeIPs_run L h CIDR = Inr fr \<longrightarrow>
        (\<forall>s \<in> ipset fr. \<exists>addr ip'. InterfaceAddrs h = Inr addr \<and> ip' \<in> set (Addr_IPs addr)
             \<and> s = IP_String L ip' \<and> \<not> IsLoopback ip' \<and> \<not> IsIPv6 ip'))"
proof (intro conjI impI ballI)
  show 1: "isValidForSet ip \<longleftrightarrow> \<not> (IsLoopback ip \<or> IsIPv6 ip)"
    by (auto simp: isValidForSet_def)
  show "isValidForSet ip = spec_isValidForSet False ip"
    by (auto simp: isValidForSet_def spec_isValidForSet_def)
  show "isValidForSet ip \<longleftrightarrow>
        ip = None \<or> (\<exists>a b c d. a \<noteq> 127 \<and> (ip = Some [a, b, c, d] \<or> ip = IPv4 a b c d))"
    by (rule isValidForSet_shape)
next
  fix s
  assume run: "fetchNodeIPs_run L h CIDR = Inr fr" and s: "s \<in> ipset fr"
  from run_Inr_D [OF run] obtain addr where
    h: "InterfaceAddrs h = Inr addr"
    and n: "nodeAddress fr = AddressSet L isValidForSet addr"
    and d: "ipset fr = Difference (nodeAddress fr) (bindedAddress fr)"
    by blast
  from s d n have "s \<in> AddressSet L isValidForSet addr"
    by (simp add: Difference_eq)
  then obtain ip' where "ip' \<in> set (Addr_IPs addr)" "isValidForSet ip'" "s = IP_String L ip'"
    by (auto simp: AddressSet_mem)
  with h show "\<exists>addr ip'. InterfaceAddrs h = Inr addr \<and> ip' \<in> set (Addr_IPs addr)
             \<and> s = IP_String L ip' \<and> \<not> IsLoopback ip' \<and> \<not> IsIPv6 ip'"
    by (auto simp: isValidForSet_def split: if_splits)
qed


theorem filter_excludes_loopback_and_v6_witness:
  "fetchNodeIPs_run lib0 hostB ''10.96.0.0/12'' = Inr locals_B
   \<and> IPv4 127 0 0 1 \<in> set (Addr_IPs [on_link (IPv4 10 96 0 5),
                                         IPNetAddr \<lparr>IP = IPv4 127 0 0 1, Mask = [255, 0, 0, 0]\<rparr>])
   \<and> IsLoopback (IPv4 127 0 0 1)
   \<and> ''10.96.0.5'' \<in> ipset locals_B
   \<and> (\<exists>addr ip'. InterfaceAddrs hostB = Inr addr
          \<and> ip' \<in> set (Addr_IPs addr) \<and> ''10.96.0.5'' = IP_String lib0 ip'
          \<and> \<not> IsLoopback ip' \<and> \<not> IsIPv6 ip')"
proof -
  have a: "IPv4 127 0 0 1 \<in> set (Addr_IPs [on_link (IPv4 10 96 0 5),
             IPNetAddr \<lparr>IP = IPv4 127 0 0 1, Mask = [255, 0, 0, 0]\<rparr>])"
    by (simp add: on_link_def)
  have b: "IsLoopback (IPv4 127 0 0 1)"
    by (simp add: ip_defs)
  have c: "''10.96.0.5'' \<in> ipset locals_B"
    by (simp add: locals_B_def)
  from filter_excludes_loopback_and_v6 [of None lib0 hostB "''10.96.0.0/12''" locals_B]
    run_B a b c
  show ?thesis by blast
qed

text \<open>
  C4, as the specification states it, fails: on a host without any candidate address the
  malformed range is never parsed and nothing is logged about it.
\<close>

theorem malformed_cidr_without_candidates_logs_nothing:
  "ParseCIDR lib0 ''bogus'' = Inl ''invalid CIDR address: bogus''
   \<and> fetchNodeIPs lib0 host_none ''bogus'' = ([], Inr [])"
  by (simp add: fetchNodeIPs_def run_defs host_none_def lib0_def)

text \<open>
  C4, amended. When the CIDR string is malformed, the pass still returns every candidate
  address and no error, the flag \<open>invalidIP\<close> is false, and the parse failure is logged
  once for each candidate address: so it is logged if and only if there is a candidate. The
  driver then logs the returned list as in any other pass.
\<close>

theorem malformed_cidr_skips_conflict_test:
  "ParseCIDR L CIDR = Inl e \<and> fetchNodeIPs_run L h CIDR = Inr fr \<longrightarrow>
     ips fr = map (ParseIP L) (UnsortedList h (ipset fr))
     \<and> \<not> invalidIP fr
     \<and> fetchNodeIPs L h CIDR = (trace fr, Inr (ips fr))
     \<and> trace fr = concat (map (\<lambda>_. [ParseCIDR_call CIDR, Log (CouldNotParseCidr e)])
                              (UnsortedList h (ipset fr)))
     \<and> pass L d CIDR h = trace fr @ [Log (NodeIPs (ips fr)), Sleep d]
     \<and> (UnsortedList_ok h \<longrightarrow>
          set (ips fr) = ParseIP L ` ipset fr
          \<and> (Log (CouldNotParseCidr e) \<in> set (trace fr) \<longleftrightarrow> ipset fr \<noteq> {}))"
proof (intro impI)
  assume a: "ParseCIDR L CIDR = Inl e \<and> fetchNodeIPs_run L h CIDR = Inr fr"
  then have bad: "ParseCIDR L CIDR = Inl e" and run: "fetchNodeIPs_run L h CIDR = Inr fr"
    by simp_all
  let ?xs = "UnsortedList h (ipset fr)"
  from run_Inr_D [OF run]
  have f: "invalidIP fr = fst (snd (fetchNodeIPs_loop L CIDR ?xs [] False []))"
    and t: "trace fr = snd (snd (fetchNodeIPs_loop L CIDR ?xs [] False []))
                        @ (if invalidIP fr
                           then [Log (Context (nodeAddress fr) (bindedAddress fr) (ips fr))]
                           else [])"
    by blast+
  have ips: "ips fr = map (ParseIP L) ?xs"
    by (rule run_ips [OF run])
  have flag: "\<not> invalidIP fr"
    by (simp add: f loop_flag_bad [OF bad])
  have fetch: "fetchNodeIPs L h CIDR = (trace fr, Inr (ips fr))"
    by (rule run_fetch [OF run])
  have tr: "trace fr = concat (map (\<lambda>_. [ParseCIDR_call CIDR, Log (CouldNotParseCidr e)]) ?xs)"
    using t flag by (simp add: loop_trace_bad [OF bad])
  have p: "pass L d CIDR h = trace fr @ [Log (NodeIPs (ips fr)), Sleep d]"
    by (simp add: pass_def fetch)
  have u: "set (ips fr) = ParseIP L ` ipset fr
          \<and> (Log (CouldNotParseCidr e) \<in> set (trace fr) \<longleftrightarrow> ipset fr \<noteq> {})"
    if ok: "UnsortedList_ok h"
  proof -
    from ok run have ul: "set ?xs = ipset fr"
      by (simp add: UnsortedList_okD run_ipset_finite)
    have "Log (CouldNotParseCidr e) \<in> set (trace fr) \<longleftrightarrow> set ?xs \<noteq> {}"
      by (auto simp: tr)
    then show ?thesis by (simp add: ips ul)
  qed
  from ips flag fetch tr p u
  show "ips fr = map (ParseIP L) (UnsortedList h (ipset fr))
     \<and> \<not> invalidIP fr
     \<and> fetchNodeIPs L h CIDR = (trace fr, Inr (ips fr))
     \<and> trace fr = concat (map (\<lambda>_. [ParseCIDR_call CIDR, Log (CouldNotParseCidr e)])
                              (UnsortedList h (ipset fr)))
     \<and> pass L d CIDR h = trace fr @ [Log (NodeIPs (ips fr)), Sleep d]
     \<and> (UnsortedList_ok h \<longrightarrow>
          set (ips fr) = ParseIP L ` ipset fr
          \<and> (Log (CouldNotParseCidr e) \<in> set (trace fr) \<longleftrightarrow> ipset fr \<noteq> {}))"
    by blast
qed

theorem malformed_cidr_skips_conflict_test_witness:
  "ParseCIDR lib0 ''bogus'' = Inl ''invalid CIDR address: bogus''
   \<and> fetchNodeIPs_run lib0 hostB ''bogus'' = Inr locals_B_bogus
   \<and> UnsortedList_ok hostB
   \<and> ips locals_B_bogus = [IPv4 10 96 0 5]
   \<and> \<not> invalidIP locals_B_bogus
   \<and> fetchNodeIPs lib0 hostB ''bogus'' = (trace locals_B_bogus, Inr (ips locals_B_bogus))
   \<and> pass lib0 1000000000 ''bogus'' hostB =
       trace locals_B_bogus @ [Log (NodeIPs (ips locals_B_bogus)), Sleep 1000000000]
   \<and> Log (CouldNotParseCidr ''invalid CIDR address: bogus'') \<in> set (trace locals_B_bogus)"
proof -
  have bad: "ParseCIDR lib0 ''bogus'' = Inl ''invalid CIDR address: bogus''"
    by (simp add: lib0_def)
  have ok: "UnsortedList_ok hostB"
    by (simp add: hostB_def ok_sorted)
  have v: "ips locals_B_bogus = [IPv4 10 96 0 5]" "ipset locals_B_bogus \<noteq> {}"
    by (simp_all add: locals_B_bogus_def)
  from malformed_cidr_skips_conflict_test
         [of lib0 "''bogus''" "''invalid CIDR address: bogus''" hostB locals_B_bogus 1000000000]
       bad run_B_bogus ok v
  show ?thesis by blast
qed


lemma run_noif:
  "fetchNodeIPs_run lib0 host_noif CIDR =
     Inl ''Could not get interface kube-ipvs0: route ip+net: no such network interface''"
  by (simp add: run_defs host_noif_def)

lemma fetch_Inl:
  "fetchNodeIPs_run L h CIDR = Inl err \<Longrightarrow> fetchNodeIPs L h CIDR = ([], Inl err)"
  by (simp add: fetchNodeIPs_def)

text \<open>
  C5. When \<open>net.InterfaceAddrs\<close>, the lookup of \<open>kube-ipvs0\<close> or the listing of its addresses
  fails, \<open>fetchNodeIPs\<close> returns an error without any event: the CIDR is not parsed and no
  address is tested. The pass logs the error and sleeps, and the loop goes on with the passes
  that follow, whatever passes came before.
\<close>

theorem enumeration_failure_skips_detection:
  "(\<exists>e. InterfaceAddrs h = Inl e) \<or> (\<exists>e. InterfaceByName h ''kube-ipvs0'' = Inl e)
     \<or> (\<exists>ifi e. InterfaceByName h ''kube-ipvs0'' = Inr ifi \<and> Addrs ifi = Inl e)
   \<longrightarrow> (\<exists>err. fetchNodeIPs L h CIDR = ([], Inl err)
          \<and> pass L d CIDR h = [Log (FetchFailed err), Sleep d]
          \<and> loop L d CIDR (hs1 @ h # hs2)
              = loop L d CIDR hs1 @ [Log (FetchFailed err), Sleep d] @ loop L d CIDR hs2
          \<and> (3 \<le> length Args \<and> ParseDuration L (Args ! 1 @ ''ms'') = Inr d \<and> Args ! 2 = CIDR
               \<longrightarrow> main L (hs1 @ h # hs2) Args
                     = (loop L d CIDR hs1 @ [Log (FetchFailed err), Sleep d] @ loop L d CIDR hs2,
                        Looping)))"
proof
  assume "(\<exists>e. InterfaceAddrs h = Inl e) \<or> (\<exists>e. InterfaceByName h ''kube-ipvs0'' = Inl e)
            \<or> (\<exists>ifi e. InterfaceByName h ''kube-ipvs0'' = Inr ifi \<and> Addrs ifi = Inl e)"
  then have "\<exists>err. fetchNodeIPs_run L h CIDR = Inl err"
    by (simp only: run_Inl_iff)
  then obtain err where "fetchNodeIPs_run L h CIDR = Inl err" ..
  then have f: "fetchNodeIPs L h CIDR = ([], Inl err)"
    by (rule fetch_Inl)
  then have p: "pass L d CIDR h = [Log (FetchFailed err), Sleep d]"
    by (simp add: pass_def)
  then have l: "loop L d CIDR (hs1 @ h # hs2)
                  = loop L d CIDR hs1 @ [Log (FetchFailed err), Sleep d] @ loop L d CIDR hs2"
    by (simp add: loop_append)
  have m: "main L (hs1 @ h # hs2) Args
             = (loop L d CIDR hs1 @ [Log (FetchFailed err), Sleep d] @ loop L d CIDR hs2, Looping)"
    if "3 \<le> length Args \<and> ParseDuration L (Args ! 1 @ ''ms'') = Inr d \<and> Args ! 2 = CIDR"
    using that l by (simp add: main_def)
  from f p l m
  show "\<exists>err. fetchNodeIPs L h CIDR = ([], Inl err)
          \<and> pass L d CIDR h = [Log (FetchFailed err), Sleep d]
          \<and> loop L d CIDR (hs1 @ h # hs2)
              = loop L d CIDR hs1 @ [Log (FetchFailed err), Sleep d] @ loop L d CIDR hs2
          \<and> (3 \<le> length Args \<and> ParseDuration L (Args ! 1 @ ''ms'') = Inr d \<and> Args ! 2 = CIDR
               \<longrightarrow> main L (hs1 @ h # hs2) Args
                     = (loop L d CIDR hs1 @ [Log (FetchFailed err), Sleep d] @ loop L d CIDR hs2,
                        Looping))"
    by blast
qed

theorem enumeration_failure_skips_detection_witness:
  "InterfaceByName host_noif ''kube-ipvs0'' = Inl ''route ip+net: no such network interface''
   \<and> 3 \<le> length [''probe'', ''1000'', ''10.96.0.0/12'']
   \<and> ParseDuration lib0 ([''probe'', ''1000'', ''10.96.0.0/12''] ! 1 @ ''ms'') = Inr 1000000000
   \<and> [''probe'', ''1000'', ''10.96.0.0/12''] ! 2 = ''10.96.0.0/12''
   \<and> (\<exists>err. fetchNodeIPs lib0 host_noif ''10.96.0.0/12'' = ([], Inl err)
        \<and> pass lib0 1000000000 ''10.96.0.0/12'' host_noif
            = [Log (FetchFailed err), Sleep 1000000000]
        \<and> main lib0 ([hostB] @ host_noif # [hostB]) [''probe'', ''1000'', ''10.96.0.0/12'']
            = (loop lib0 1000000000 ''10.96.0.0/12'' [hostB]
                 @ [Log (FetchFailed err), Sleep 1000000000]
                 @ loop lib0 1000000000 ''10.96.0.0/12'' [hostB], Looping))"
proof -
  have a: "InterfaceByName host_noif ''kube-ipvs0'' = Inl ''route ip+net: no such network interface''"
    by (simp add: host_noif_def)
  have b: "3 \<le> length [''probe'', ''1000'', ''10.96.0.0/12'']"
    "ParseDuration lib0 ([''probe'', ''1000'', ''10.96.0.0/12''] ! 1 @ ''ms'') = Inr 1000000000"
    "[''probe'', ''1000'', ''10.96.0.0/12''] ! 2 = ''10.96.0.0/12''"
    by (simp_all add: lib0_def)
  from enumeration_failure_skips_detection
         [of host_noif lib0 "''10.96.0.0/12''" 1000000000 "[hostB]" "[hostB]"
             "[''probe'', ''1000'', ''10.96.0.0/12'']"] a b
  show ?thesis by blast
qed

text \<open>
  C6, as the specification states it, fails: in a pass over three candidate addresses the
  CIDR string is parsed three times.
\<close>

theorem cidr_parsed_three_times_for_three_candidates:
  "length (filter is_ParseCIDR_call (fst (fetchNodeIPs lib0 host_two ''10.96.0.0/12''))) = 3"
  by (simp add: fetchNodeIPs_def run_two locals_two_def)

text \<open>
  C6, amended. In every pass the configured CIDR string is parsed once for each candidate
  address, inside the loop over the candidates: as many times as there are candidates, and
  not at all when the collection fails.
\<close>

theorem cidr_parsed_once_per_candidate:
  "(UnsortedList_ok h \<and> fetchNodeIPs_run L h CIDR = Inr fr \<longrightarrow>
      filter is_ParseCIDR_call (fst (fetchNodeIPs L h CIDR))
        = replicate (card (ipset fr)) (ParseCIDR_call CIDR)
      \<and> filter is_ParseCIDR_call (pass L d CIDR h)
        = replicate (card (ipset fr)) (ParseCIDR_call CIDR))
   \<and> (fetchNodeIPs_run L h CIDR = Inl err \<longrightarrow>
        fst (fetchNodeIPs L h CIDR) = []
        \<and> filter is_ParseCIDR_call (pass L d CIDR h) = [])"
proof (intro conjI impI)
  assume a: "UnsortedList_ok h \<and> fetchNodeIPs_run L h CIDR = Inr fr"
  then have run: "fetchNodeIPs_run L h CIDR = Inr fr" by simp
  let ?xs = "UnsortedList h (ipset fr)"
  from a run have "distinct ?xs" "set ?xs = ipset fr"
    by (simp_all add: UnsortedList_okD run_ipset_finite)
  then have n: "length ?xs = card (ipset fr)"
    using distinct_card by fastforce
  from run_Inr_D [OF run]
  have t: "trace fr = snd (snd (fetchNodeIPs_loop L CIDR ?xs [] False []))
                        @ (if invalidIP fr
                           then [Log (Context (nodeAddress fr) (bindedAddress fr) (ips fr))]
                           else [])"
    by blast
  have c: "filter is_ParseCIDR_call (trace fr) = replicate (card (ipset fr)) (ParseCIDR_call CIDR)"
    by (subst t) (simp add: loop_calls n)
  show "filter is_ParseCIDR_call (fst (fetchNodeIPs L h CIDR))
          = replicate (card (ipset fr)) (ParseCIDR_call CIDR)"
    by (simp add: run_fetch [OF run] c)
  show "filter is_ParseCIDR_call (pass L d CIDR h)
          = replicate (card (ipset fr)) (ParseCIDR_call CIDR)"
    by (simp add: pass_def run_fetch [OF run] c)
next
  assume "fetchNodeIPs_run L h CIDR = Inl err"
  then have f: "fetchNodeIPs L h CIDR = ([], Inl err)" by (rule fetch_Inl)
  show "fst (fetchNodeIPs L h CIDR) = []" by (simp add: f)
  show "filter is_ParseCIDR_call (pass L d CIDR h) = []" by (simp add: pass_def f)
qed

theorem cidr_parsed_once_per_candidate_witness:
  "UnsortedList_ok host_two
   \<and> fetchNodeIPs_run lib0 host_two ''10.96.0.0/12'' = Inr locals_two
   \<and> card (ipset locals_two) = 3
   \<and> filter is_ParseCIDR_call (fst (fetchNodeIPs lib0 host_two ''10.96.0.0/12''))
       = replicate (card (ipset locals_two)) (ParseCIDR_call ''10.96.0.0/12'')
   \<and> fetchNodeIPs_run lib0 host_noif ''10.96.0.0/12''
       = Inl ''Could not get interface kube-ipvs0: route ip+net: no such network interface''
   \<and> fst (fetchNodeIPs lib0 host_noif ''10.96.0.0/12'') = []"
proof -
  have ok: "UnsortedList_ok host_two"
    by (simp add: host_two_def ok_rev_sorted)
  have c: "card (ipset locals_two) = 3"
    by (simp add: locals_two_def)
  from cidr_parsed_once_per_candidate
         [of host_two lib0 "''10.96.0.0/12''" locals_two 0 "[]"] ok run_two
  have 1: "filter is_ParseCIDR_call (fst (fetchNodeIPs lib0 host_two ''10.96.0.0/12''))
             = replicate (card (ipset locals_two)) (ParseCIDR_call ''10.96.0.0/12'')"
    by blast
  from cidr_parsed_once_per_candidate
         [of host_noif lib0 "''10.96.0.0/12''" locals_two 0
             "''Could not get interface kube-ipvs0: route ip+net: no such network interface''"]
       run_noif
  have 2: "fst (fetchNodeIPs lib0 host_noif ''10.96.0.0/12'') = []"
    by blast
  from ok run_two c 1 2 run_noif show ?thesis by blast
qed

text \<open>
  C7. For a well-formed CIDR and a candidate set \<open>S\<close>, the loop over \<open>S\<close> with one more
  address that lies inside the network ends with the flag \<open>invalidIP\<close> true; so a flag that
  is true for \<open>S\<close> is true for the larger set.
\<close>

theorem conflict_flag_monotone:
  "UnsortedList_ok h \<and> finite S \<and> ParseCIDR L CIDR = Inr (ip0, ipnet)
     \<and> Contains ipnet (ParseIP L a)
   \<longrightarrow> fst (snd (fetchNodeIPs_loop L CIDR (UnsortedList h (insert a S)) [] False []))
       \<and> (fst (snd (fetchNodeIPs_loop L CIDR (UnsortedList h S) [] False []))
            \<longrightarrow> fst (snd (fetchNodeIPs_loop L CIDR (UnsortedList h (insert a S)) [] False [])))"
proof
  assume a: "UnsortedList_ok h \<and> finite S \<and> ParseCIDR L CIDR = Inr (ip0, ipnet)
               \<and> Contains ipnet (ParseIP L a)"
  then have cidr: "ParseCIDR L CIDR = Inr (ip0, ipnet)" and inside: "Contains ipnet (ParseIP L a)"
    by simp_all
  from a have "set (UnsortedList h (insert a S)) = insert a S"
    by (simp add: UnsortedList_okD)
  with inside
  have "fst (snd (fetchNodeIPs_loop L CIDR (UnsortedList h (insert a S)) [] False []))"
    by (simp add: loop_flag_ok [OF cidr])
  then show "fst (snd (fetchNodeIPs_loop L CIDR (UnsortedList h (insert a S)) [] False []))
       \<and> (fst (snd (fetchNodeIPs_loop L CIDR (UnsortedList h S) [] False []))
            \<longrightarrow> fst (snd (fetchNodeIPs_loop L CIDR (UnsortedList h (insert a S)) [] False [])))"
    by blast
qed

theorem conflict_flag_monotone_witness:
  "UnsortedList_ok hostB \<and> finite {''10.96.0.7''}
   \<and> ParseCIDR lib0 ''10.96.0.0/12'' = Inr (IPv4 10 96 0 0, service_net)
   \<and> Contains service_net (ParseIP lib0 ''10.96.0.5'')
   \<and> fst (snd (fetchNodeIPs_loop lib0 ''10.96.0.0/12'' (UnsortedList hostB {''10.96.0.7''})
                 [] False []))
   \<and> fst (snd (fetchNodeIPs_loop lib0 ''10.96.0.0/12''
                 (UnsortedList hostB (insert ''10.96.0.5'' {''10.96.0.7''})) [] False []))"
proof -
  have ok: "UnsortedList_ok hostB"
    by (simp add: hostB_def ok_sorted)
  have cidr: "ParseCIDR lib0 ''10.96.0.0/12'' = Inr (IPv4 10 96 0 0, service_net)"
    by (simp add: lib0_def)
  have inside: "Contains service_net (ParseIP lib0 ''10.96.0.5'')"
    using in_5 by (simp add: lib0_def)
  have before: "fst (snd (fetchNodeIPs_loop lib0 ''10.96.0.0/12''
                            (UnsortedList hostB {''10.96.0.7''}) [] False []))"
    using in_7 by (simp add: hostB_def lib0_def Let_def)
  have fin: "finite {''10.96.0.7''}" by simp
  from conflict_flag_monotone
         [of hostB "{''10.96.0.7''}" lib0 "''10.96.0.0/12''" "IPv4 10 96 0 0" service_net
             "''10.96.0.5''"]
       ok fin cidr inside before
  show ?thesis by blast
qed

text \<open>
  C8. With fewer than two positional arguments, \<open>main\<close> logs one error and returns; with an
  interval that \<open>time.ParseDuration\<close> rejects (after \<open>ms\<close> is appended), it logs one error
  and returns. In both cases the log call is the only event: no pass runs and nothing sleeps,
  whatever the host would have answered.
\<close>

theorem bad_arguments_exit_before_loop:
  "(length Args < 3 \<longrightarrow> main L hs Args = ([Log MissingArgs], Exited))
   \<and> (3 \<le> length Args \<and> ParseDuration L (Args ! 1 @ ''ms'') = Inl e
        \<longrightarrow> main L hs Args = ([Log (FailedToParseTime e)], Exited))"
  by (simp add: main_def)

theorem bad_arguments_exit_before_loop_witness:
  "length [''probe'', ''1000''] < 3
   \<and> main lib0 [hostB, host_two] [''probe'', ''1000''] = ([Log MissingArgs], Exited)
   \<and> 3 \<le> length [''probe'', ''abc'', ''10.96.0.0/12'']
   \<and> ParseDuration lib0 ([''probe'', ''abc'', ''10.96.0.0/12''] ! 1 @ ''ms'')
       = Inl (''time: invalid duration '' @ [CHR 0x22] @ ''abcms'' @ [CHR 0x22])
   \<and> main lib0 [hostB, host_two] [''probe'', ''abc'', ''10.96.0.0/12'']
       = ([Log (FailedToParseTime (''time: invalid duration '' @ [CHR 0x22] @ ''abcms''
                                     @ [CHR 0x22]))], Exited)"
proof -
  have a: "length [''probe'', ''1000''] < 3" by simp
  have b: "3 \<le> length [''probe'', ''abc'', ''10.96.0.0/12'']" by simp
  have c: "ParseDuration lib0 ([''probe'', ''abc'', ''10.96.0.0/12''] ! 1 @ ''ms'')
             = Inl (''time: invalid duration '' @ [CHR 0x22] @ ''abcms'' @ [CHR 0x22])"
    by (simp add: lib0_def)
  from bad_arguments_exit_before_loop [of "[''probe'', ''1000'']" lib0 "[hostB, host_two]"] a
  have 1: "main lib0 [hostB, host_two] [''probe'', ''1000''] = ([Log MissingArgs], Exited)"
    by blast
  from bad_arguments_exit_before_loop
         [of "[''probe'', ''abc'', ''10.96.0.0/12'']" lib0 "[hostB, host_two]"
             "''time: invalid duration '' @ [CHR 0x22] @ ''abcms'' @ [CHR 0x22]"] b c
  have 2: "main lib0 [hostB, host_two] [''probe'', ''abc'', ''10.96.0.0/12'']
       = ([Log (FailedToParseTime (''time: invalid duration '' @ [CHR 0x22] @ ''abcms''
                                     @ [CHR 0x22]))], Exited)"
    by blast
  from a b c 1 2 show ?thesis by blast
qed

text \<open>
  C9. With a well-formed CIDR, the per-address conflict messages of a pass are at most one:
  the message for the first candidate, in iteration order, that lies inside the network.
  Candidates inside the network that come later get no message of their own; they are in the
  returned slice, which holds every candidate, and in the one context message, which carries
  that slice and is logged exactly when the flag is set.
\<close>

theorem only_first_conflict_is_named:
  "ParseCIDR L CIDR = Inr (ip0, ipnet) \<and> fetchNodeIPs_run L h CIDR = Inr fr \<longrightarrow>
     filter is_conflict_msg (trace fr)
       = (case find (\<lambda>s. Contains ipnet (ParseIP L s)) (UnsortedList h (ipset fr)) of
            None \<Rightarrow> []
          | Some s \<Rightarrow> [Log (ContainsClusterIP (ParseIP L s))])
     \<and> ips fr = map (ParseIP L) (UnsortedList h (ipset fr))
     \<and> filter is_context_msg (trace fr)
         = (if invalidIP fr
            then [Log (Context (nodeAddress fr) (bindedAddress fr) (ips fr))] else [])
     \<and> (invalidIP fr \<longleftrightarrow>
          find (\<lambda>s. Contains ipnet (ParseIP L s)) (UnsortedList h (ipset fr)) \<noteq> None)"
proof
  assume a: "ParseCIDR L CIDR = Inr (ip0, ipnet) \<and> fetchNodeIPs_run L h CIDR = Inr fr"
  then have cidr: "ParseCIDR L CIDR = Inr (ip0, ipnet)"
    and run: "fetchNodeIPs_run L h CIDR = Inr fr"
    by simp_all
  let ?xs = "UnsortedList h (ipset fr)"
  let ?ctx = "if invalidIP fr
              then [Log (Context (nodeAddress fr) (bindedAddress fr) (ips fr))] else []"
  from run_Inr_D [OF run]
  have f: "invalidIP fr = fst (snd (fetchNodeIPs_loop L CIDR ?xs [] False []))"
    and t: "trace fr = snd (snd (fetchNodeIPs_loop L CIDR ?xs [] False [])) @ ?ctx"
    by blast+
  have 1: "filter is_conflict_msg (trace fr)
             = (case find (\<lambda>s. Contains ipnet (ParseIP L s)) ?xs of
                  None \<Rightarrow> []
                | Some s \<Rightarrow> [Log (ContainsClusterIP (ParseIP L s))])"
    by (subst t) (simp add: loop_conflict_msgs [OF cidr])
  have 2: "ips fr = map (ParseIP L) ?xs"
    by (rule run_ips [OF run])
  have 3: "filter is_context_msg (trace fr) = ?ctx"
    by (subst t) (simp add: loop_no_context)
  have 4: "invalidIP fr \<longleftrightarrow> find (\<lambda>s. Contains ipnet (ParseIP L s)) ?xs \<noteq> None"
    by (auto simp: f loop_flag_ok [OF cidr] find_None_iff)
  from 1 2 3 4
  show "filter is_conflict_msg (trace fr)
       = (case find (\<lambda>s. Contains ipnet (ParseIP L s)) (UnsortedList h (ipset fr)) of
            None \<Rightarrow> []
          | Some s \<Rightarrow> [Log (ContainsClusterIP (ParseIP L s))])
     \<and> ips fr = map (ParseIP L) (UnsortedList h (ipset fr))
     \<and> filter is_context_msg (trace fr)
         = (if invalidIP fr
            then [Log (Context (nodeAddress fr) (bindedAddress fr) (ips fr))] else [])
     \<and> (invalidIP fr \<longleftrightarrow>
          find (\<lambda>s. Contains ipnet (ParseIP L s)) (UnsortedList h (ipset fr)) \<noteq> None)"
    by blast
qed


theorem only_first_conflict_is_named_witness:
  "ParseCIDR lib0 ''10.96.0.0/12'' = Inr (IPv4 10 96 0 0, service_net)
   \<and> fetchNodeIPs_run lib0 host_two ''10.96.0.0/12'' = Inr locals_two
   \<and> UnsortedList host_two (ipset locals_two) = [''192.168.1.4'', ''10.96.0.7'', ''10.96.0.5'']
   \<and> Contains service_net (ParseIP lib0 ''10.96.0.7'')
   \<and> Contains service_net (ParseIP lib0 ''10.96.0.5'')
   \<and> filter is_conflict_msg (trace locals_two) = [Log (ContainsClusterIP (IPv4 10 96 0 7))]
   \<and> ips locals_two = map (ParseIP lib0) (UnsortedList host_two (ipset locals_two))
   \<and> filter is_context_msg (trace locals_two)
       = [Log (Context (nodeAddress locals_two) (bindedAddress locals_two) (ips locals_two))]"
proof -
  have cidr: "ParseCIDR lib0 ''10.96.0.0/12'' = Inr (IPv4 10 96 0 0, service_net)"
    by (simp add: lib0_def)
  have order: "UnsortedList host_two (ipset locals_two)
                 = [''192.168.1.4'', ''10.96.0.7'', ''10.96.0.5'']"
    by (simp add: host_two_def locals_two_def sorted_three)
  have inside: "Contains service_net (ParseIP lib0 ''10.96.0.7'')"
    "Contains service_net (ParseIP lib0 ''10.96.0.5'')"
    using in_5 in_7 by (simp_all add: lib0_def)
  have outside: "\<not> Contains service_net (ParseIP lib0 ''192.168.1.4'')"
    using out_192 by (simp add: lib0_def)
  have first: "find (\<lambda>s. Contains service_net (ParseIP lib0 s))
                 (UnsortedList host_two (ipset locals_two)) = Some ''10.96.0.7''"
    using inside outside by (simp add: order)
  have flag: "invalidIP locals_two"
    by (simp add: locals_two_def)
  have p7: "ParseIP lib0 ''10.96.0.7'' = IPv4 10 96 0 7"
    by (simp add: lib0_def)
  from only_first_conflict_is_named
         [of lib0 "''10.96.0.0/12''" "IPv4 10 96 0 0" service_net host_two locals_two]
       cidr run_two
  have c: "filter is_conflict_msg (trace locals_two)
       = (case find (\<lambda>s. Contains service_net (ParseIP lib0 s))
                (UnsortedList host_two (ipset locals_two)) of
            None \<Rightarrow> []
          | Some s \<Rightarrow> [Log (ContainsClusterIP (ParseIP lib0 s))])"
    and i: "ips locals_two = map (ParseIP lib0) (UnsortedList host_two (ipset locals_two))"
    and x: "filter is_context_msg (trace locals_two)
         = (if invalidIP locals_two
            then [Log (Context (nodeAddress locals_two) (bindedAddress locals_two)
                         (ips locals_two))]
            else [])"
    by blast+
  from c have c': "filter is_conflict_msg (trace locals_two)
                     = [Log (ContainsClusterIP (IPv4 10 96 0 7))]"
    by (simp only: first option.case p7)
  from x flag have x': "filter is_context_msg (trace locals_two)
       = [Log (Context (nodeAddress locals_two) (bindedAddress locals_two) (ips locals_two))]"
    by (simp only: if_True)
  from cidr run_two order inside c' i x' show ?thesis by blast
qed

lemma loop_no_sleep:
  "filter is_Sleep (snd (snd (fetchNodeIPs_loop L c xs ips0 flag tr))) = filter is_Sleep tr"
  by (induction xs arbitrary: ips0 flag tr) (auto simp: Let_def split: sum.splits)

lemma fetch_no_sleep: "filter is_Sleep (fst (fetchNodeIPs L h c)) = []"
proof (cases "fetchNodeIPs_run L h c")
  case (Inl err)
  then show ?thesis by (simp add: fetchNodeIPs_def)
next
  case (Inr fr)
  from run_Inr_D [OF Inr]
  have t: "trace fr = snd (snd (fetchNodeIPs_loop L c (UnsortedList h (ipset fr)) [] False []))
                        @ (if invalidIP fr
                           then [Log (Context (nodeAddress fr) (bindedAddress fr) (ips fr))]
                           else [])"
    by blast
  have "filter is_Sleep (trace fr) = []"
    by (subst t) (simp add: loop_no_sleep)
  with Inr show ?thesis by (simp add: fetchNodeIPs_def)
qed

lemma pass_sleeps: "filter is_Sleep (pass L d c h) = [Sleep d]"
  using fetch_no_sleep [of L h c]
  by (cases "fetchNodeIPs L h c") (simp add: pass_def split: sum.splits)

lemma loop_sleeps: "filter is_Sleep (loop L d c hs) = replicate (length hs) (Sleep d)"
  by (induction hs) (simp_all add: pass_sleeps)

lemma paused_filter: "paused (filter is_Sleep es) = paused es"
  by (induction es rule: paused.induct) simp_all

lemma paused_replicate: "paused (replicate n (Sleep d)) = n * Sleep_pause d"
  by (induction n) simp_all

lemma loop_paused: "paused (loop L d c hs) = length hs * Sleep_pause d"
  using paused_filter [of "loop L d c hs"] by (simp add: loop_sleeps paused_replicate)

text \<open>
  C10. \<open>main\<close> enters the loop with whatever duration \<open>time.ParseDuration\<close> returns for the
  interval argument followed by \<open>ms\<close>, without a test of its sign or of the form of the
  argument: so with \<open>2.5\<close> and with \<open>-100\<close>, which \<open>time.ParseDuration\<close> accepts as \<open>2.5ms\<close>
  and \<open>-100ms\<close>. Each pass of the run then ends with \<open>time.Sleep\<close> on that duration: the
  calls of \<open>time.Sleep\<close> in the events of \<open>main\<close> are one per pass, all on the parsed
  duration. With a negative duration none of them pauses, so the whole run spends no time
  sleeping; otherwise it spends the duration once per pass.
\<close>

theorem interval_accepted_if_it_parses:
  "(3 \<le> length Args \<and> ParseDuration L (Args ! 1 @ ''ms'') = Inr d
      \<longrightarrow> main L hs Args = (loop L d (Args ! 2) hs, Looping)
          \<and> main L (h # hs) Args
              = (pass L d (Args ! 2) h @ loop L d (Args ! 2) hs, Looping)
          \<and> Sleep d \<in> set (fst (main L (h # hs) Args))
          \<and> filter is_Sleep (fst (main L hs Args)) = replicate (length hs) (Sleep d)
          \<and> paused (fst (main L hs Args)) = length hs * Sleep_pause d
          \<and> (sint d < 0 \<longrightarrow> paused (fst (main L hs Args)) = 0)
          \<and> (0 < sint d \<longrightarrow> paused (fst (main L hs Args)) = length hs * unat d))
   \<and> pass L d CIDR h \<noteq> [] \<and> last (pass L d CIDR h) = Sleep d
   \<and> (sint d < 0 \<longrightarrow> Sleep_pause d = 0)
   \<and> (ParseDuration L ''2.5ms'' = Inr d1
        \<longrightarrow> main L hs [prog, ''2.5'', CIDR] = (loop L d1 CIDR hs, Looping)
            \<and> filter is_Sleep (fst (main L hs [prog, ''2.5'', CIDR]))
                = replicate (length hs) (Sleep d1))
   \<and> (ParseDuration L ''-100ms'' = Inr d2
        \<longrightarrow> main L hs [prog, ''-100'', CIDR] = (loop L d2 CIDR hs, Looping)
            \<and> filter is_Sleep (fst (main L hs [prog, ''-100'', CIDR]))
                = replicate (length hs) (Sleep d2)
            \<and> (sint d2 < 0 \<longrightarrow> paused (fst (main L hs [prog, ''-100'', CIDR])) = 0))"
proof (intro conjI impI)
  assume a: "3 \<le> length Args \<and> ParseDuration L (Args ! 1 @ ''ms'') = Inr d"
  then show m: "main L hs Args = (loop L d (Args ! 2) hs, Looping)"
    by (simp add: main_def)
  from a show m': "main L (h # hs) Args
                     = (pass L d (Args ! 2) h @ loop L d (Args ! 2) hs, Looping)"
    by (simp add: main_def)
  have "Sleep d \<in> set (filter is_Sleep (pass L d (Args ! 2) h))"
    by (simp add: pass_sleeps)
  then show "Sleep d \<in> set (fst (main L (h # hs) Args))"
    by (simp add: m')
  show "filter is_Sleep (fst (main L hs Args)) = replicate (length hs) (Sleep d)"
    by (simp add: m loop_sleeps)
  show p: "paused (fst (main L hs Args)) = length hs * Sleep_pause d"
    by (simp add: m loop_paused)
  show "paused (fst (main L hs Args)) = 0" if "sint d < 0"
    using that by (simp add: p Sleep_pause_def)
  show "paused (fst (main L hs Args)) = length hs * unat d" if "0 < sint d"
    using that by (simp add: p Sleep_pause_def)
next
  show "pass L d CIDR h \<noteq> []"
    by (simp add: pass_def split: prod.splits sum.splits)
  show "last (pass L d CIDR h) = Sleep d"
    by (simp add: pass_def split: prod.splits sum.splits)
next
  assume "sint d < 0"
  then show "Sleep_pause d = 0"
    by (simp add: Sleep_pause_def)
next
  assume "ParseDuration L ''2.5ms'' = Inr d1"
  then show m1: "main L hs [prog, ''2.5'', CIDR] = (loop L d1 CIDR hs, Looping)"
    by (simp add: main_def)
  show "filter is_Sleep (fst (main L hs [prog, ''2.5'', CIDR]))
          = replicate (length hs) (Sleep d1)"
    by (simp add: m1 loop_sleeps)
next
  assume "ParseDuration L ''-100ms'' = Inr d2"
  then show m2: "main L hs [prog, ''-100'', CIDR] = (loop L d2 CIDR hs, Looping)"
    by (simp add: main_def)
  show "filter is_Sleep (fst (main L hs [prog, ''-100'', CIDR]))
          = replicate (length hs) (Sleep d2)"
    by (simp add: m2 loop_sleeps)
  show "paused (fst (main L hs [prog, ''-100'', CIDR])) = 0" if "sint d2 < 0"
    using that by (simp add: m2 loop_paused Sleep_pause_def)
qed

theorem interval_accepted_if_it_parses_witness:
  "3 \<le> length [''probe'', ''-100'', ''10.96.0.0/12'']
   \<and> ParseDuration lib0 ([''probe'', ''-100'', ''10.96.0.0/12''] ! 1 @ ''ms'')
       = Inr (- 100000000)
   \<and> sint (- 100000000 :: 64 word) < 0
   \<and> 3 \<le> length [''probe'', ''2.5'', ''10.96.0.0/12'']
   \<and> ParseDuration lib0 ([''probe'', ''2.5'', ''10.96.0.0/12''] ! 1 @ ''ms'') = Inr 2500000
   \<and> 0 < sint (2500000 :: 64 word)
   \<and> ParseDuration lib0 ''2.5ms'' = Inr 2500000
   \<and> ParseDuration lib0 ''-100ms'' = Inr (- 100000000)
   \<and> main lib0 [hostB] [''probe'', ''-100'', ''10.96.0.0/12'']
       = (loop lib0 (- 100000000) ''10.96.0.0/12'' [hostB], Looping)
   \<and> main lib0 [host_two, hostB] [''probe'', ''-100'', ''10.96.0.0/12'']
       = (pass lib0 (- 100000000) ([''probe'', ''-100'', ''10.96.0.0/12''] ! 2) host_two
            @ loop lib0 (- 100000000) ([''probe'', ''-100'', ''10.96.0.0/12''] ! 2) [hostB],
          Looping)
   \<and> Sleep (- 100000000)
        \<in> set (fst (main lib0 [host_two, hostB] [''probe'', ''-100'', ''10.96.0.0/12'']))
   \<and> filter is_Sleep (fst (main lib0 [hostB] [''probe'', ''-100'', ''10.96.0.0/12'']))
       = replicate (length [hostB]) (Sleep (- 100000000))
   \<and> paused (fst (main lib0 [hostB] [''probe'', ''-100'', ''10.96.0.0/12''])) = 0
   \<and> main lib0 [hostB] [''probe'', ''2.5'', ''10.96.0.0/12'']
       = (loop lib0 2500000 ''10.96.0.0/12'' [hostB], Looping)
   \<and> paused (fst (main lib0 [hostB] [''probe'', ''2.5'', ''10.96.0.0/12'']))
       = length [hostB] * unat (2500000 :: 64 word)
   \<and> last (pass lib0 (- 100000000) ''10.96.0.0/12'' hostB) = Sleep (- 100000000)
   \<and> Sleep_pause (- 100000000) = 0"
proof -
  have a: "3 \<le> length [''probe'', ''-100'', ''10.96.0.0/12'']" by simp
  have b: "ParseDuration lib0 ([''probe'', ''-100'', ''10.96.0.0/12''] ! 1 @ ''ms'')
             = Inr (- 100000000)"
    by (simp add: lib0_def)
  have c: "sint (- 100000000 :: 64 word) < 0" by simp
  have a': "3 \<le> length [''probe'', ''2.5'', ''10.96.0.0/12'']" by simp
  have b': "ParseDuration lib0 ([''probe'', ''2.5'', ''10.96.0.0/12''] ! 1 @ ''ms'')
              = Inr 2500000"
    by (simp add: lib0_def)
  have c': "0 < sint (2500000 :: 64 word)" by simp
  have d: "ParseDuration lib0 ''2.5ms'' = Inr 2500000"
    "ParseDuration lib0 ''-100ms'' = Inr (- 100000000)"
    by (simp_all add: lib0_def)
  note T = interval_accepted_if_it_parses
             [where Args = "[''probe'', ''-100'', ''10.96.0.0/12'']" and L = lib0
                and d = "- 100000000" and hs = "[hostB]" and h = host_two
                and CIDR = "''10.96.0.0/12''" and ?d1.0 = 2500000 and prog = "''probe''"
                and ?d2.0 = "- 100000000"]
  from T [THEN conjunct1] a b c
  have 1: "main lib0 [host_two, hostB] [''probe'', ''-100'', ''10.96.0.0/12'']
       = (pass lib0 (- 100000000) ([''probe'', ''-100'', ''10.96.0.0/12''] ! 2) host_two
            @ loop lib0 (- 100000000) ([''probe'', ''-100'', ''10.96.0.0/12''] ! 2) [hostB],
          Looping)"
    and 2: "Sleep (- 100000000)
        \<in> set (fst (main lib0 [host_two, hostB] [''probe'', ''-100'', ''10.96.0.0/12'']))"
    and 3: "filter is_Sleep (fst (main lib0 [hostB] [''probe'', ''-100'', ''10.96.0.0/12'']))
       = replicate (length [hostB]) (Sleep (- 100000000))"
    and 4: "paused (fst (main lib0 [hostB] [''probe'', ''-100'', ''10.96.0.0/12''])) = 0"
    by blast+
  from T [THEN conjunct2] c d
  have 5: "main lib0 [hostB] [''probe'', ''-100'', ''10.96.0.0/12'']
       = (loop lib0 (- 100000000) ''10.96.0.0/12'' [hostB], Looping)"
    and 6: "main lib0 [hostB] [''probe'', ''2.5'', ''10.96.0.0/12'']
       = (loop lib0 2500000 ''10.96.0.0/12'' [hostB], Looping)"
    and 8: "Sleep_pause (- 100000000) = 0"
    by blast+
  from interval_accepted_if_it_parses
         [where Args = "[''probe'', ''2.5'', ''10.96.0.0/12'']" and L = lib0
            and d = 2500000 and hs = "[hostB]" and h = hostB
            and CIDR = "''10.96.0.0/12''", THEN conjunct1] a' b' c'
  have 9: "paused (fst (main lib0 [hostB] [''probe'', ''2.5'', ''10.96.0.0/12'']))
             = length [hostB] * unat (2500000 :: 64 word)"
    by blast
  from interval_accepted_if_it_parses
         [where L = lib0 and d = "- 100000000" and h = hostB and CIDR = "''10.96.0.0/12''",
          THEN conjunct2]
  have 11: "last (pass lib0 (- 100000000) ''10.96.0.0/12'' hostB) = Sleep (- 100000000)"
    by blast
  from a b c a' b' c' d 1 2 3 4 5 6 8 9 11 show ?thesis by blast
qed

end
